theory Spec2Isabelle
  imports Main
begin

section \<open>The launcher \<^verbatim>\<open>run_app.py\<close>\<close>

text \<open>
  The program is a launcher of four statements:
  \<^verbatim>\<open>
  project_root = Path(__file__).parent
  sys.path.insert(0, str(project_root))
  from backend.main import main
  if __name__ == "__main__":
      main()
  \<close>
  The statements are embedded one by one. What they call in the Python platform
  (\<^verbatim>\<open>pathlib\<close> on a POSIX system, \<^verbatim>\<open>list.insert\<close>, the path-based import) is
  written out as executable functions; the file system and the \<^verbatim>\<open>backend\<close> package, which are
  not part of the launcher, are parameters of the run.
\<close>

subsection \<open>Paths: \<^verbatim>\<open>Path(__file__).parent\<close> and \<^verbatim>\<open>str\<close>\<close>

text \<open>
  A parsed POSIX path, as \<^verbatim>\<open>pathlib\<close> keeps it: the root (\<^verbatim>\<open>""\<close>, \<^verbatim>\<open>"/"\<close> or \<^verbatim>\<open>"//"\<close>) and
  the components after it.
\<close>

record pure_path =
  p_root :: string
  p_tail :: "string list"

text \<open>\<^verbatim>\<open>str.split(sep)\<close>: the pieces between the separators, in order; never empty.\<close>

fun split_sep :: "char \<Rightarrow> string \<Rightarrow> string list" where
  "split_sep c [] = [[]]"
| "split_sep c (x # xs) =
     (if x = c then [] # split_sep c xs
      else (case split_sep c xs of
              [] \<Rightarrow> [[x]]
            | w # ws \<Rightarrow> (x # w) # ws))"

text \<open>\<^verbatim>\<open>sep.join(parts)\<close>.\<close>

fun join_sep :: "char \<Rightarrow> string list \<Rightarrow> string" where
  "join_sep c [] = []"
| "join_sep c [w] = w"
| "join_sep c (w # v # ws) = w @ c # join_sep c (v # ws)"

text \<open>
  \<^verbatim>\<open>posixpath.splitroot\<close> without the drive, which is always empty: no leading slash, no
  root; exactly two leading slashes, the root \<^verbatim>\<open>"//"\<close>; otherwise the root \<^verbatim>\<open>"/"\<close>.
\<close>

definition splitroot :: "string \<Rightarrow> string \<times> string" where
  "splitroot p =
     (if take 1 p \<noteq> ''/'' then ([], p)
      else if take 1 (drop 1 p) \<noteq> ''/'' \<or> take 1 (drop 2 p) = ''/'' then (''/'', drop 1 p)
      else (take 2 p, drop 2 p))"

text \<open>
  \<^verbatim>\<open>Path(s)\<close>: the root is split off, the rest is split at the slashes, and the empty
  components and the components \<^verbatim>\<open>"."\<close> are dropped.
\<close>

definition parse_path :: "string \<Rightarrow> pure_path" where
  "parse_path s =
     (case splitroot s of
        (r, rel) \<Rightarrow>
          \<lparr>p_root = r,
           p_tail = filter (\<lambda>x. x \<noteq> [] \<and> x \<noteq> ''.'') (split_sep (CHR ''/'') rel)\<rparr>)"

text \<open>\<^verbatim>\<open>str(path)\<close>: the root and the components joined by slashes, or \<^verbatim>\<open>"."\<close> when that is empty.\<close>

definition str_path :: "pure_path \<Rightarrow> string" where
  "str_path p =
     (let s = p_root p @ join_sep (CHR ''/'') (p_tail p)
      in if s = [] then ''.'' else s)"

text \<open>\<^verbatim>\<open>path.parent\<close>: the path without its last component; a path with no component is its own parent.\<close>

definition parent :: "pure_path \<Rightarrow> pure_path" where
  "parent p = (if p_tail p = [] then p else p\<lparr>p_tail := butlast (p_tail p)\<rparr>)"

text \<open>\<^verbatim>\<open>os.path.isabs\<close> on POSIX: the string starts with a slash.\<close>

definition isabs :: "string \<Rightarrow> bool" where
  "isabs s = (take 1 s = ''/'')"

text \<open>Line 9 and the argument of line 10: \<^verbatim>\<open>str(Path(__file__).parent)\<close>.\<close>

definition project_root :: "string \<Rightarrow> pure_path" where
  "project_root file = parent (parse_path file)"

definition project_root_str :: "string \<Rightarrow> string" where
  "project_root_str file = str_path (project_root file)"

subsection \<open>The search path: \<^verbatim>\<open>sys.path.insert\<close>\<close>

text \<open>
  \<^verbatim>\<open>list.insert(i, x)\<close>: a negative index counts from the end, and an index beyond either end
  is clamped to it; the element is put before position \<open>i\<close>. The list never shrinks.
\<close>

definition list_insert :: "int \<Rightarrow> 'a \<Rightarrow> 'a list \<Rightarrow> 'a list" where
  "list_insert i x xs =
     (let n = int (length xs);
          j = (if i < 0 then max 0 (i + n) else min i n)
      in take (nat j) xs @ x # drop (nat j) xs)"

text \<open>
  The state of the process that the launcher's statements touch: the module search path
  \<^verbatim>\<open>sys.path\<close> and the names of the loaded modules, \<^verbatim>\<open>sys.modules\<close>.
\<close>

record process =
  sys_path :: "string list"
  sys_modules :: "string list"

text \<open>Line 10 with its argument given: \<^verbatim>\<open>sys.path.insert(0, root)\<close>.\<close>

definition register_search_path :: "string \<Rightarrow> process \<Rightarrow> process" where
  "register_search_path root st = st\<lparr>sys_path := list_insert 0 root (sys_path st)\<rparr>"

subsection \<open>The import: \<^verbatim>\<open>from backend.main import main\<close>\<close>

text \<open>
  Python's exceptions. One that the collaborator's code raises is kept by class and message.
  Those that the interpreter raises at lines 13 and 16 are kept by what they are about;
  their message text differs between Python versions and is not modelled:
  \<^item> \<open>ModuleNotFound n\<close>: \<^verbatim>\<open>ModuleNotFoundError\<close>, no module named \<open>n\<close> can be imported;
  \<^item> \<open>CannotImportName x n\<close>: \<^verbatim>\<open>ImportError\<close>, the loaded module \<open>n\<close> has no attribute \<open>x\<close>
    and no submodule \<open>x\<close>;
  \<^item> \<open>NotCallable\<close>: \<^verbatim>\<open>TypeError\<close>, the object called is a module.
\<close>

datatype exn_class =
  ModuleNotFoundError | ImportError | AttributeError | TypeError | OtherError string

datatype exn =
    Exn exn_class string
  | ModuleNotFound string
  | CannotImportName string string
  | NotCallable


text \<open>
  The collaborator, which the launcher does not contain. Calling what \<^verbatim>\<open>main\<close> is bound to
  returns, raises, or never returns (an application's main loop). Executing the body of a
  module raises, or finishes with the attribute \<^verbatim>\<open>main\<close> bound (\<open>Some\<close>) or not (\<open>None\<close>).
\<close>

datatype outcome = Returns | Raises exn | Diverges

datatype module_exec = ExecRaises exn | Defines "outcome option"

text \<open>
  What the path-based finder sees of a name in one directory: nothing; a directory of that
  name without \<^verbatim>\<open>__init__.py\<close>, which is a portion of a namespace package; or a regular
  package or a module file. Over a list of directories the first regular find decides; the
  portions passed on the way count only when there is no regular find, and then all of them
  together are the package (\<^verbatim>\<open>PathFinder._get_spec\<close>).
\<close>

datatype ('r, 'n) slot = Nothing | NamespaceDir 'n | Regular 'r

datatype ('r, 'n) spec = SpecNone | SpecNamespace "'n list" | SpecRegular 'r

fun find_spec :: "('r, 'n) slot list \<Rightarrow> 'n list \<Rightarrow> ('r, 'n) spec" where
  "find_spec [] ns = (if ns = [] then SpecNone else SpecNamespace ns)"
| "find_spec (Nothing # xs) ns = find_spec xs ns"
| "find_spec (NamespaceDir n # xs) ns = find_spec xs (ns @ [n])"
| "find_spec (Regular r # xs) ns = SpecRegular r"

text \<open>
  The three directories the import can look into, each given by what it holds of the name
  looked up there.
  \<^item> A directory \<^verbatim>\<open>backend/main/\<close>, for the name \<^verbatim>\<open>main\<close>: a module or package whose body
    raises or not, or a namespace portion.
  \<^item> A directory \<^verbatim>\<open>backend/\<close>, for the name \<^verbatim>\<open>main\<close>: the file \<^verbatim>\<open>main.py\<close>, or the package
    \<^verbatim>\<open>main/\<close> with its \<^verbatim>\<open>__init__.py\<close> and its directory, or a namespace portion \<^verbatim>\<open>main/\<close>.
  \<^item> A directory of the search path, for the name \<^verbatim>\<open>backend\<close>: the file \<^verbatim>\<open>backend.py\<close>
    (its body raises or not), or the package \<^verbatim>\<open>backend/\<close> (its \<^verbatim>\<open>__init__.py\<close> raises or not)
    with its directory, or a namespace portion \<^verbatim>\<open>backend/\<close>.
\<close>

type_synonym main_dir = "(exn option, unit) slot"

datatype main_found = MainModule module_exec | MainPackage module_exec main_dir

type_synonym backend_dir = "(main_found, main_dir) slot"

datatype backend_found = BackendModule "exn option" | BackendPackage "exn option" backend_dir

type_synonym entry_content = "(backend_found, backend_dir) slot"

type_synonym file_system = "pure_path \<Rightarrow> entry_content"

text \<open>
  A relative path is taken from the working directory (\<^verbatim>\<open>cwd / p\<close>); an absolute one stands
  for itself. This is how the operating system reads a search-path entry when the import
  system looks into it.
\<close>

definition join_path :: "pure_path \<Rightarrow> pure_path \<Rightarrow> pure_path" where
  "join_path w q = (if p_root q \<noteq> [] then q else \<lparr>p_root = p_root w, p_tail = p_tail w @ p_tail q\<rparr>)"

definition entry_dir :: "pure_path \<Rightarrow> string \<Rightarrow> pure_path" where
  "entry_dir w e = join_path w (parse_path e)"

text \<open>
  The result of an import: the names of the modules it loaded, and the exception it raised
  or what \<^verbatim>\<open>main\<close> is bound to.
\<close>

type_synonym import_result = "string list \<times> (exn + outcome)"

text \<open>
  \<^verbatim>\<open>from M import main\<close> on the loaded module \<open>M\<close> = \<^verbatim>\<open>backend.main\<close>, given its attribute
  \<^verbatim>\<open>main\<close> and, when it is a package, the directories of its \<^verbatim>\<open>__path__\<close>. An attribute is
  taken as it is. Without one, a package is searched for a submodule \<^verbatim>\<open>main\<close>: if that
  loads, \<^verbatim>\<open>main\<close> is bound to the submodule, and calling a module raises \<^verbatim>\<open>TypeError\<close>.
  Otherwise the statement raises \<^verbatim>\<open>ImportError\<close>.
\<close>

definition from_import :: "outcome option \<Rightarrow> main_dir list option \<Rightarrow> import_result" where
  "from_import a p =
     (case a of
        Some m \<Rightarrow> ([], Inr m)
      | None \<Rightarrow>
          (case p of
             None \<Rightarrow> ([], Inl (CannotImportName ''main'' ''backend.main''))
           | Some ds \<Rightarrow>
               (case find_spec ds [] of
                  SpecNone \<Rightarrow> ([], Inl (CannotImportName ''main'' ''backend.main''))
                | SpecNamespace us \<Rightarrow> ([''backend.main.main''], Inr (Raises NotCallable))
                | SpecRegular None \<Rightarrow> ([''backend.main.main''], Inr (Raises NotCallable))
                | SpecRegular (Some e) \<Rightarrow> ([], Inl e))))"

text \<open>
  The module \<^verbatim>\<open>backend.main\<close> is executed, then the name is taken from it. A module whose
  body raised is not kept in \<^verbatim>\<open>sys.modules\<close>.
\<close>

definition exec_main :: "module_exec \<Rightarrow> main_dir list option \<Rightarrow> import_result" where
  "exec_main x p =
     (case x of
        ExecRaises e \<Rightarrow> ([], Inl e)
      | Defines a \<Rightarrow> (case from_import a p of (ns, r) \<Rightarrow> (''backend.main'' # ns, r)))"

text \<open>
  \<^verbatim>\<open>backend.main\<close> is looked up in the directories of \<^verbatim>\<open>backend.__path__\<close>. A namespace
  package \<^verbatim>\<open>main\<close> has no code and no attribute.
\<close>

definition find_main :: "backend_dir list \<Rightarrow> import_result" where
  "find_main bs =
     (case find_spec bs [] of
        SpecNone \<Rightarrow> ([], Inl (ModuleNotFound ''backend.main''))
      | SpecNamespace ds \<Rightarrow> exec_main (Defines None) (Some ds)
      | SpecRegular (MainModule x) \<Rightarrow> exec_main x None
      | SpecRegular (MainPackage x d) \<Rightarrow> exec_main x (Some [d]))"

text \<open>
  A regular \<^verbatim>\<open>backend\<close> that was found is executed; a module file is no package, so nothing
  can be imported from inside it.
\<close>

definition load_backend :: "backend_found \<Rightarrow> import_result" where
  "load_backend b =
     (case b of
        BackendModule (Some e) \<Rightarrow> ([], Inl e)
      | BackendModule None \<Rightarrow> ([''backend''], Inl (ModuleNotFound ''backend.main''))
      | BackendPackage (Some e) d \<Rightarrow> ([], Inl e)
      | BackendPackage None d \<Rightarrow> (case find_main [d] of (ns, r) \<Rightarrow> (''backend'' # ns, r)))"

text \<open>
  The path-based finder on \<^verbatim>\<open>sys.path\<close>: what \<^verbatim>\<open>backend\<close> is, and the whole import through
  it when no module \<^verbatim>\<open>backend\<close> is loaded yet.
\<close>

definition backend_spec ::
    "file_system \<Rightarrow> pure_path \<Rightarrow> string list \<Rightarrow> (backend_found, backend_dir) spec" where
  "backend_spec fsys w sp = find_spec (map (\<lambda>e. fsys (entry_dir w e)) sp) []"

definition find_backend :: "file_system \<Rightarrow> pure_path \<Rightarrow> string list \<Rightarrow> import_result" where
  "find_backend fsys w sp =
     (case backend_spec fsys w sp of
        SpecNone \<Rightarrow> ([], Inl (ModuleNotFound ''backend''))
      | SpecNamespace bs \<Rightarrow> (case find_main bs of (ns, r) \<Rightarrow> (''backend'' # ns, r))
      | SpecRegular b \<Rightarrow> load_backend b)"

text \<open>
  The environment of one load of the launcher: its \<^verbatim>\<open>__file__\<close> and \<^verbatim>\<open>__name__\<close>, the
  working directory and the file system. When \<^verbatim>\<open>sys.modules\<close> already holds \<^verbatim>\<open>backend\<close> or
  \<^verbatim>\<open>backend.main\<close> (another program imported them before it loads the launcher), the
  environment also says what these module objects are: for \<^verbatim>\<open>backend\<close> the directories of
  its \<^verbatim>\<open>__path__\<close>, or \<open>None\<close> when it is no package; for \<^verbatim>\<open>backend.main\<close> its attribute
  \<^verbatim>\<open>main\<close> and its \<^verbatim>\<open>__path__\<close>. The loaded modules are those an import left there: a loaded
  submodule is an attribute of its package.
\<close>

record environment =
  dunder_file :: string
  dunder_name :: string
  cwd :: pure_path
  fs :: file_system
  loaded_backend :: "backend_dir list option"
  loaded_main :: "outcome option \<times> main_dir list option"

text \<open>
  Line 13. A module that \<^verbatim>\<open>sys.modules\<close> holds is taken from there and nothing is searched
  for it; otherwise its parent's \<^verbatim>\<open>__path__\<close>, or \<^verbatim>\<open>sys.path\<close> for \<^verbatim>\<open>backend\<close>, is searched.
  The modules loaded on the way are added to \<^verbatim>\<open>sys.modules\<close>.
\<close>

definition import_main :: "environment \<Rightarrow> process \<Rightarrow> process \<times> (exn + outcome)" where
  "import_main env st =
     (case (if ''backend.main'' \<in> set (sys_modules st)
            then from_import (fst (loaded_main env)) (snd (loaded_main env))
            else if ''backend'' \<in> set (sys_modules st)
            then (case loaded_backend env of
                    None \<Rightarrow> ([], Inl (ModuleNotFound ''backend.main''))
                  | Some bs \<Rightarrow> find_main bs)
            else find_backend (fs env) (cwd env) (sys_path st)) of
        (ns, r) \<Rightarrow> (st\<lparr>sys_modules := sys_modules st @ ns\<rparr>, r))"

subsection \<open>The launcher\<close>

text \<open>
  What a load of the launcher did, in order, and how it ended. \<open>final\<close> is the state the
  launcher's own statements leave; what \<^verbatim>\<open>main()\<close> does to the process is not the launcher's.
\<close>

datatype event = PathRegistered string | ImportAttempted "string list" | MainCalled

datatype ending = Finished | Unhandled exn | NeverReturns

record result =
  final :: process
  trace :: "event list"
  status :: ending

fun call_main :: "outcome \<Rightarrow> ending" where
  "call_main Returns = Finished"
| "call_main (Raises e) = Unhandled e"
| "call_main Diverges = NeverReturns"

text \<open>
  Lines 9 to 16. There is no \<^verbatim>\<open>try\<close> in the file: an exception of line 13 or of line 16 ends
  the run. The import is a statement of the module body, outside the guard of line 15;
  the call is inside it.
\<close>

definition run_app :: "environment \<Rightarrow> process \<Rightarrow> result" where
  "run_app env st =
     (let root = project_root_str (dunder_file env);
          st1 = register_search_path root st;
          tr = [PathRegistered root, ImportAttempted (sys_path st1)]
      in case import_main env st1 of
           (st2, Inl e) \<Rightarrow> \<lparr>final = st2, trace = tr, status = Unhandled e\<rparr>
         | (st2, Inr m) \<Rightarrow>
             if dunder_name env = ''__main__''
             then \<lparr>final = st2, trace = tr @ [MainCalled], status = call_main m\<rparr>
             else \<lparr>final = st2, trace = tr, status = Finished\<rparr>)"

text \<open>Counting in a trace: the import statements executed and the calls of \<^verbatim>\<open>main\<close>.\<close>

fun is_import :: "event \<Rightarrow> bool" where
  "is_import (ImportAttempted sp) = True"
| "is_import _ = False"

definition import_attempts :: "event list \<Rightarrow> nat" where
  "import_attempts tr = length (filter is_import tr)"

definition main_calls :: "event list \<Rightarrow> nat" where
  "main_calls tr = count_list tr MainCalled"


text \<open>The state after lines 9 and 10, on which line 13 runs.\<close>

definition registered :: "environment \<Rightarrow> process \<Rightarrow> process" where
  "registered env st = register_search_path (project_root_str (dunder_file env)) st"

text \<open>
  What \<^verbatim>\<open>pathlib\<close> produces: one of the three roots, and components that are not empty,
  not \<^verbatim>\<open>"."\<close> and hold no slash.
\<close>

definition wf_path :: "pure_path \<Rightarrow> bool" where
  "wf_path p =
     ((p_root p = [] \<or> p_root p = ''/'' \<or> p_root p = ''//'') \<and>
      list_all (\<lambda>x. x \<noteq> [] \<and> x \<noteq> ''.'' \<and> CHR ''/'' \<notin> set x) (p_tail p))"

subsection \<open>Concrete runs\<close>

text \<open>
  A file system without links: \<^verbatim>\<open>..\<close> leads to the directory above, and above the root is
  the root.
\<close>

fun collapse_tail :: "string list \<Rightarrow> string list \<Rightarrow> string list" where
  "collapse_tail acc [] = rev acc"
| "collapse_tail acc (x # xs) =
     (if x = ''..'' then collapse_tail (tl acc) xs else collapse_tail (x # acc) xs)"

definition collapse :: "pure_path \<Rightarrow> pure_path" where
  "collapse p = p\<lparr>p_tail := collapse_tail [] (p_tail p)\<rparr>"

text \<open>
  A project in \<^verbatim>\<open>/proj\<close>: the file system holds the given \<^verbatim>\<open>backend\<close> there and none
  elsewhere. A regular package \<^verbatim>\<open>backend\<close> holds the file \<^verbatim>\<open>main.py\<close> with the given body, or
  no \<^verbatim>\<open>main\<close> at all; the good one defines a \<^verbatim>\<open>main\<close> that returns. The process starts with
  one entry on its search path and nothing of \<^verbatim>\<open>backend\<close> loaded.
\<close>

definition proj_dir :: pure_path where
  "proj_dir = \<lparr>p_root = ''/'', p_tail = [''proj'']\<rparr>"

definition fs_with :: "entry_content \<Rightarrow> file_system" where
  "fs_with c d = (if collapse d = proj_dir then c else Nothing)"

definition backend_main :: "module_exec \<Rightarrow> entry_content" where
  "backend_main x = Regular (BackendPackage None (Regular (MainModule x)))"

definition backend_without_main :: entry_content where
  "backend_without_main = Regular (BackendPackage None Nothing)"

definition good_backend :: entry_content where
  "good_backend = backend_main (Defines (Some Returns))"

definition start_state :: process where
  "start_state = \<lparr>sys_path = [''/usr/lib/python3''], sys_modules = [''sys'']\<rparr>"

definition launch :: "string \<Rightarrow> string \<Rightarrow> string \<Rightarrow> entry_content \<Rightarrow> environment" where
  "launch w file nm c =
     \<lparr>dunder_file = file, dunder_name = nm, cwd = parse_path w, fs = fs_with c,
      loaded_backend = None, loaded_main = (None, None)\<rparr>"

text \<open>
  A second file system: the good \<^verbatim>\<open>backend\<close> in \<^verbatim>\<open>/proj\<close>, and in every other directory a
  regular package \<^verbatim>\<open>backend\<close> whose \<^verbatim>\<open>main.py\<close> defines no \<^verbatim>\<open>main\<close>.
\<close>

definition fs_shadowed :: file_system where
  "fs_shadowed d =
     (if collapse d = proj_dir then good_backend else backend_main (Defines None))"

text \<open>
  A third: in \<^verbatim>\<open>/proj\<close> a directory \<^verbatim>\<open>backend/\<close> without \<^verbatim>\<open>__init__.py\<close> that holds a good
  \<^verbatim>\<open>main.py\<close>, and in \<^verbatim>\<open>/usr/lib/python3\<close> an installed regular package \<^verbatim>\<open>backend\<close> whose
  \<^verbatim>\<open>main\<close> raises.
\<close>

definition installed_error :: exn where
  "installed_error = Exn (OtherError ''RuntimeError'') ''installed main''"

definition fs_namespace :: file_system where
  "fs_namespace d =
     (if collapse d = proj_dir
      then NamespaceDir (Regular (MainModule (Defines (Some Returns))))
      else if collapse d = \<lparr>p_root = ''/'', p_tail = [''usr'', ''lib'', ''python3'']\<rparr>
      then backend_main (Defines (Some (Raises installed_error)))
      else Nothing)"

definition launch_ns :: environment where
  "launch_ns =
     \<lparr>dunder_file = ''/proj/run_app.py'', dunder_name = ''__main__'', cwd = parse_path ''/tmp'',
      fs = fs_namespace, loaded_backend = None, loaded_main = (None, None)\<rparr>"

text \<open>
  A fourth: nothing in \<^verbatim>\<open>/proj\<close>, and the good \<^verbatim>\<open>backend\<close> in \<^verbatim>\<open>/a/lib\<close> only.
\<close>

definition fs_lib :: file_system where
  "fs_lib d =
     (if collapse d = \<lparr>p_root = ''/'', p_tail = [''a'', ''lib'']\<rparr> then good_backend else Nothing)"

definition launch_lib :: "string \<Rightarrow> environment" where
  "launch_lib w =
     \<lparr>dunder_file = ''/proj/run_app.py'', dunder_name = ''__main__'', cwd = parse_path w,
      fs = fs_lib, loaded_backend = None, loaded_main = (None, None)\<rparr>"

section \<open>Properties\<close>

subsection \<open>Splitting and joining\<close>

lemma split_sep_not_Nil: "split_sep c s \<noteq> []"
  by (induction s) (auto split: list.splits)

lemma split_sep_no_sep: "w \<in> set (split_sep c s) \<Longrightarrow> c \<notin> set w"
proof (induction s arbitrary: w)
  case Nil
  then show ?case by simp
next
  case (Cons x xs)
  show ?case
  proof (cases "x = c")
    case True
    with Cons show ?thesis by auto
  next
    case False
    obtain v vs where vs: "split_sep c xs = v # vs"
      using split_sep_not_Nil [of c xs] by (cases "split_sep c xs") auto
    with Cons False show ?thesis by auto
  qed
qed

lemma split_sep_single: "c \<notin> set w \<Longrightarrow> split_sep c w = [w]"
  by (induction w) auto

lemma split_sep_append: "c \<notin> set w \<Longrightarrow> split_sep c (w @ c # s) = w # split_sep c s"
  by (induction w) auto

lemma split_join:
  "ws \<noteq> [] \<Longrightarrow> list_all (\<lambda>w. c \<notin> set w) ws \<Longrightarrow> split_sep c (join_sep c ws) = ws"
  by (induction c ws rule: join_sep.induct) (simp_all add: split_sep_single split_sep_append)

lemma take1_join:
  "list_all (\<lambda>x. x \<noteq> [] \<and> c \<notin> set x) ws \<Longrightarrow> take 1 (join_sep c ws) \<noteq> [c]"
proof (cases ws)
  case Nil
  then show ?thesis by simp
next
  case (Cons w vs)
  assume a: "list_all (\<lambda>x. x \<noteq> [] \<and> c \<notin> set x) ws"
  with Cons obtain y ys where w: "w = y # ys" "y \<noteq> c" by (cases w) auto
  show ?thesis using Cons w by (cases vs) auto
qed

lemma join_eq_Nil:
  "list_all (\<lambda>x. x \<noteq> []) ws \<Longrightarrow> (join_sep c ws = []) = (ws = [])"
  by (induction c ws rule: join_sep.induct) auto

subsection \<open>Parsed paths\<close>

lemma wf_parse_path: "wf_path (parse_path s)"
proof -
  have r: "fst (splitroot s) = [] \<or> fst (splitroot s) = ''/'' \<or> fst (splitroot s) = ''//''"
    by (cases s; cases "tl s") (auto simp: splitroot_def)
  have "list_all (\<lambda>x. x \<noteq> [] \<and> x \<noteq> ''.'' \<and> CHR ''/'' \<notin> set x)
          (filter (\<lambda>x. x \<noteq> [] \<and> x \<noteq> ''.'') (split_sep (CHR ''/'') t))" for t
    by (auto simp: list_all_iff dest: split_sep_no_sep)
  with r show ?thesis
    by (cases "splitroot s") (simp add: wf_path_def parse_path_def)
qed

lemma wf_parent: "wf_path p \<Longrightarrow> wf_path (parent p)"
  by (auto simp: wf_path_def parent_def list_all_iff dest: in_set_butlastD)

lemma p_root_parent: "p_root (parent p) = p_root p"
  by (simp add: parent_def)

lemma p_root_parse: "(p_root (parse_path s) \<noteq> []) = isabs s"
  by (cases s) (auto simp: parse_path_def splitroot_def isabs_def split: prod.splits)

lemma isabs_str_path: "wf_path p \<Longrightarrow> isabs (str_path p) = (p_root p \<noteq> [])"
proof -
  assume wf: "wf_path p"
  then have t: "take 1 (join_sep (CHR ''/'') (p_tail p)) \<noteq> ''/''"
    by (intro take1_join) (simp add: wf_path_def list_all_iff)
  from wf consider "p_root p = []" | "p_root p = ''/''" | "p_root p = ''//''"
    by (auto simp: wf_path_def)
  then show ?thesis
  proof cases
    case 1
    with t show ?thesis by (simp add: str_path_def isabs_def Let_def)
  next
    case 2
    then show ?thesis by (simp add: str_path_def isabs_def Let_def)
  next
    case 3
    then show ?thesis by (simp add: str_path_def isabs_def Let_def)
  qed
qed

lemma filter_wf_tail:
  "list_all (\<lambda>x. x \<noteq> [] \<and> x \<noteq> ''.'' \<and> CHR ''/'' \<notin> set x) ws \<Longrightarrow>
   filter (\<lambda>x. x \<noteq> [] \<and> x \<noteq> ''.'') (split_sep (CHR ''/'') (join_sep (CHR ''/'') ws)) = ws"
proof (cases "ws = []")
  case True
  then show ?thesis by simp
next
  case False
  assume a: "list_all (\<lambda>x. x \<noteq> [] \<and> x \<noteq> ''.'' \<and> CHR ''/'' \<notin> set x) ws"
  then have "split_sep (CHR ''/'') (join_sep (CHR ''/'') ws) = ws"
    using False by (intro split_join) (simp_all add: list_all_iff)
  with a show ?thesis by (simp add: list_all_iff filter_id_conv)
qed

text \<open>Printing a parsed path and parsing it again gives the same path.\<close>

lemma parse_str_path: "wf_path p \<Longrightarrow> parse_path (str_path p) = p"
proof -
  assume wf: "wf_path p"
  let ?j = "join_sep (CHR ''/'') (p_tail p)"
  from wf have wt: "list_all (\<lambda>x. x \<noteq> [] \<and> x \<noteq> ''.'' \<and> CHR ''/'' \<notin> set x) (p_tail p)"
    by (simp add: wf_path_def)
  then have t: "take 1 ?j \<noteq> ''/''"
    by (intro take1_join) (simp add: list_all_iff)
  have f: "filter (\<lambda>x. x \<noteq> [] \<and> x \<noteq> ''.'') (split_sep (CHR ''/'') ?j) = p_tail p"
    using wt by (rule filter_wf_tail)
  have e: "(?j = []) = (p_tail p = [])"
    using wt by (intro join_eq_Nil) (simp add: list_all_iff)
  from wf consider "p_root p = []" | "p_root p = ''/''" | "p_root p = ''//''"
    by (auto simp: wf_path_def)
  then show ?thesis
  proof cases
    case 1
    show ?thesis
    proof (cases "p_tail p = []")
      case True
      with 1 show ?thesis
        by (simp add: str_path_def parse_path_def splitroot_def)
    next
      case False
      with e have "?j \<noteq> []" by simp
      with 1 t f show ?thesis
        by (simp add: str_path_def parse_path_def splitroot_def Let_def)
    qed
  next
    case 2
    with t f show ?thesis
      by (simp add: str_path_def parse_path_def splitroot_def Let_def)
  next
    case 3
    with t f show ?thesis
      by (simp add: str_path_def parse_path_def splitroot_def Let_def)
  qed
qed

lemma join_path_parent:
  "p_tail q \<noteq> [] \<Longrightarrow> join_path w (parent q) = parent (join_path w q)"
  by (simp add: join_path_def parent_def butlast_append)

text \<open>
  Seen from any working directory, the registered entry is the directory that holds the
  launcher file.
\<close>

lemma entry_dir_project_root:
  "p_tail (parse_path file) \<noteq> [] \<Longrightarrow>
   entry_dir w (project_root_str file) = parent (join_path w (parse_path file))"
  by (simp add: entry_dir_def project_root_str_def project_root_def
      parse_str_path wf_parent wf_parse_path join_path_parent)

subsection \<open>The finder\<close>

lemma find_spec_replicate_Nothing: "find_spec (replicate k Nothing @ xs) acc = find_spec xs acc"
  by (induction k) simp_all

lemma find_spec_replicate_Namespace:
  "find_spec (replicate k (NamespaceDir u) @ xs) acc = find_spec xs (acc @ replicate k u)"
  by (induction k arbitrary: acc) (simp_all add: replicate_append_same)

lemma find_spec_portions:
  "acc \<noteq> [] \<Longrightarrow> acc' \<noteq> [] \<Longrightarrow>
   (\<exists>r. find_spec xs acc = SpecRegular r \<and> find_spec xs acc' = SpecRegular r) \<or>
   (\<exists>ps. find_spec xs acc = SpecNamespace (acc @ ps) \<and> find_spec xs acc' = SpecNamespace (acc' @ ps))"
proof (induction xs arbitrary: acc acc')
  case Nil
  then show ?case by simp
next
  case (Cons x xs)
  show ?case
  proof (cases x)
    case Nothing
    with Cons show ?thesis by simp
  next
    case (NamespaceDir n)
    have "acc @ [n] \<noteq> []" "acc' @ [n] \<noteq> []" by simp_all
    from Cons.IH [OF this] NamespaceDir show ?thesis by auto
  next
    case (Regular r)
    then show ?thesis by simp
  qed
qed

text \<open>An entry that stands several times at the front is found as if it stood there once.\<close>

lemma find_spec_head_dup:
  "find_spec (replicate (Suc n) x @ xs) [] = find_spec (x # xs) [] \<or>
   (\<exists>u ps. find_spec (replicate (Suc n) x @ xs) [] = SpecNamespace (replicate (Suc n) u @ ps) \<and>
            find_spec (x # xs) [] = SpecNamespace (u # ps))"
proof (cases x)
  case Nothing
  then show ?thesis using find_spec_replicate_Nothing [of "Suc n" xs "[]"] by simp
next
  case (NamespaceDir u)
  have l: "find_spec (replicate (Suc n) x @ xs) [] = find_spec xs (replicate (Suc n) u)"
    using find_spec_replicate_Namespace [of "Suc n" u xs "[]"] NamespaceDir by simp
  have r: "find_spec (x # xs) [] = find_spec xs [u]"
    using NamespaceDir by simp
  have "replicate (Suc n) u \<noteq> []" "[u] \<noteq> []" by simp_all
  from find_spec_portions [OF this, of xs] l r show ?thesis by auto
next
  case (Regular r)
  then show ?thesis by simp
qed

lemma from_import_head_dup:
  "from_import a (Some (replicate (Suc n) u @ ps)) = from_import a (Some (u # ps))"
  using find_spec_head_dup [of n u ps]
  by (cases a) (auto simp: from_import_def simp del: replicate_Suc)

lemma find_main_head_dup: "find_main (replicate (Suc n) b @ bs) = find_main (b # bs)"
  using find_spec_head_dup [of n b bs]
  by (auto simp: find_main_def exec_main_def from_import_head_dup simp del: replicate_Suc)

lemma find_backend_replicate:
  "find_backend fsys w (replicate (Suc n) r @ sp) = find_backend fsys w (r # sp)"
  using find_spec_head_dup [of n "fsys (entry_dir w r)" "map (\<lambda>e. fsys (entry_dir w e)) sp"]
  by (auto simp: find_backend_def backend_spec_def find_main_head_dup simp del: replicate_Suc)




subsection \<open>The search path and the steps of a run\<close>

lemma list_insert_front: "list_insert 0 x xs = x # xs"
  by (simp add: list_insert_def)

lemma sys_path_register: "sys_path (register_search_path r st) = r # sys_path st"
  by (simp add: register_search_path_def list_insert_front)

lemma sys_modules_register: "sys_modules (register_search_path r st) = sys_modules st"
  by (simp add: register_search_path_def)

lemma sys_path_registered:
  "sys_path (registered env st) = project_root_str (dunder_file env) # sys_path st"
  by (simp add: registered_def sys_path_register)

lemma sys_modules_registered: "sys_modules (registered env st) = sys_modules st"
  by (simp add: registered_def sys_modules_register)

lemma register_funpow:
  "sys_path ((register_search_path r ^^ n) st) = replicate n r @ sys_path st"
  by (induction n) (simp_all add: sys_path_register)

lemma sys_modules_funpow: "sys_modules ((register_search_path r ^^ n) st) = sys_modules st"
  by (induction n) (simp_all add: sys_modules_register)

lemma count_list_replicate_append:
  "count_list (replicate n r @ sp) r = n + count_list sp r"
  by (induction n) simp_all

text \<open>What the import gives depends on the loaded modules and on what the finder finds.\<close>

lemma snd_import_main_cong:
  "sys_modules s1 = sys_modules s2 \<Longrightarrow>
   find_backend (fs env) (cwd env) (sys_path s1) = find_backend (fs env) (cwd env) (sys_path s2) \<Longrightarrow>
   snd (import_main env s1) = snd (import_main env s2)"
  by (simp add: import_main_def split: prod.splits)

lemma snd_import_main_fresh:
  "''backend'' \<notin> set (sys_modules st) \<Longrightarrow> ''backend.main'' \<notin> set (sys_modules st) \<Longrightarrow>
   snd (import_main env st) = snd (find_backend (fs env) (cwd env) (sys_path st))"
  by (simp add: import_main_def split: prod.splits)

lemma sys_path_import_main: "sys_path (fst (import_main env st)) = sys_path st"
  by (simp add: import_main_def split: prod.splits)

lemma run_app_import_raises:
  "snd (import_main env (registered env st)) = Inl e \<Longrightarrow>
   run_app env st =
     \<lparr>final = fst (import_main env (registered env st)),
      trace = [PathRegistered (project_root_str (dunder_file env)),
               ImportAttempted (project_root_str (dunder_file env) # sys_path st)],
      status = Unhandled e\<rparr>"
  by (cases "import_main env (registered env st)")
     (simp add: run_app_def registered_def Let_def sys_path_register)

lemma run_app_top_level:
  "snd (import_main env (registered env st)) = Inr m \<Longrightarrow> dunder_name env = ''__main__'' \<Longrightarrow>
   run_app env st =
     \<lparr>final = fst (import_main env (registered env st)),
      trace = [PathRegistered (project_root_str (dunder_file env)),
               ImportAttempted (project_root_str (dunder_file env) # sys_path st),
               MainCalled],
      status = call_main m\<rparr>"
  by (cases "import_main env (registered env st)")
     (simp add: run_app_def registered_def Let_def sys_path_register)

lemma run_app_library:
  "snd (import_main env (registered env st)) = Inr m \<Longrightarrow> dunder_name env \<noteq> ''__main__'' \<Longrightarrow>
   run_app env st =
     \<lparr>final = fst (import_main env (registered env st)),
      trace = [PathRegistered (project_root_str (dunder_file env)),
               ImportAttempted (project_root_str (dunder_file env) # sys_path st)],
      status = Finished\<rparr>"
  by (cases "import_main env (registered env st)")
     (simp add: run_app_def registered_def Let_def sys_path_register)

lemma trace_library:
  "dunder_name env \<noteq> ''__main__'' \<Longrightarrow>
   trace (run_app env st) =
     [PathRegistered (project_root_str (dunder_file env)),
      ImportAttempted (project_root_str (dunder_file env) # sys_path st)]"
  by (cases "snd (import_main env (registered env st))")
     (simp_all add: run_app_import_raises run_app_library)

lemma import_attempts_run: "import_attempts (trace (run_app env st)) = 1"
  by (cases "snd (import_main env (registered env st))"; cases "dunder_name env = ''__main__''")
     (simp_all add: run_app_import_raises run_app_library run_app_top_level import_attempts_def)

lemma final_run_app: "final (run_app env st) = fst (import_main env (registered env st))"
  by (cases "snd (import_main env (registered env st))"; cases "dunder_name env = ''__main__''")
     (simp_all add: run_app_import_raises run_app_library run_app_top_level)

lemma status_top_level:
  "dunder_name env = ''__main__'' \<Longrightarrow>
   status (run_app env st) =
     (case snd (import_main env (registered env st)) of
        Inl e \<Rightarrow> Unhandled e
      | Inr m \<Rightarrow> call_main m)"
  by (cases "snd (import_main env (registered env st))")
     (simp_all add: run_app_import_raises run_app_top_level)

text \<open>Evaluation of the concrete runs.\<close>

lemmas path_eval =
  project_root_str_def project_root_def parse_path_def splitroot_def parent_def str_path_def
  join_path_def entry_dir_def collapse_def

lemmas run_eval =
  run_app_def registered_def register_search_path_def list_insert_def import_main_def
  find_backend_def backend_spec_def load_backend_def find_main_def exec_main_def from_import_def
  launch_def launch_lib_def launch_ns_def fs_with_def fs_shadowed_def fs_namespace_def fs_lib_def proj_dir_def
  start_state_def good_backend_def backend_main_def backend_without_main_def installed_error_def
  import_attempts_def main_calls_def Let_def

text \<open>
  A package \<^verbatim>\<open>backend/main/\<close> that defines no \<^verbatim>\<open>main\<close> and holds a submodule \<^verbatim>\<open>main\<close>: the
  import succeeds, \<^verbatim>\<open>main\<close> is the submodule, and the call at line 16 raises \<^verbatim>\<open>TypeError\<close>.
\<close>

lemma package_submodule_not_callable:
  assumes "dunder_name env = ''__main__''"
    and "''backend'' \<notin> set (sys_modules st)" "''backend.main'' \<notin> set (sys_modules st)"
    and "backend_spec (fs env) (cwd env) (sys_path (registered env st)) =
           SpecRegular (BackendPackage None (Regular (MainPackage (Defines None) (Regular None))))"
  shows "snd (import_main env (registered env st)) = Inr (Raises NotCallable) \<and>
         status (run_app env st) = Unhandled NotCallable"
proof -
  from assms(2-4) have "snd (import_main env (registered env st)) = Inr (Raises NotCallable)"
    by (simp add: snd_import_main_fresh sys_modules_registered find_backend_def load_backend_def
        find_main_def exec_main_def from_import_def)
  with assms(1) show ?thesis by (simp add: status_top_level)
qed

section \<open>The claims\<close>




text \<open>
  C2 as stated fails: for the relative file path \<^verbatim>\<open>run_app.py\<close> the root that is registered
  is \<^verbatim>\<open>"."\<close>, which is not an absolute path.
\<close>

theorem relative_file_relative_root: "\<not> isabs (project_root_str ''run_app.py'')"
  by (simp add: path_eval isabs_def)

text \<open>
  C2, amended. The root directory is the parent of the launcher's own file path as it is
  written: the same root and the components without the last one. It is the entry that a
  run leaves at the front of the search path; read from the working directory it is the
  directory that holds the launcher file; and it is an absolute path exactly when the file
  path is absolute.
\<close>

theorem project_root_is_parent:
  "parse_path (project_root_str file) = parent (parse_path file) \<and>
   p_root (parse_path (project_root_str file)) = p_root (parse_path file) \<and>
   p_tail (parse_path (project_root_str file)) = butlast (p_tail (parse_path file)) \<and>
   isabs (project_root_str file) = isabs file \<and>
   (p_tail (parse_path file) \<noteq> [] \<longrightarrow>
      entry_dir w (project_root_str file) = parent (join_path w (parse_path file))) \<and>
   sys_path (final (run_app env st)) = project_root_str (dunder_file env) # sys_path st"
proof -
  have p: "parse_path (project_root_str file) = parent (parse_path file)"
    by (simp add: project_root_str_def project_root_def parse_str_path wf_parent wf_parse_path)
  have t: "p_tail (parent (parse_path file)) = butlast (p_tail (parse_path file))"
    by (simp add: parent_def)
  have a: "isabs (project_root_str file) = isabs file"
    by (simp add: project_root_str_def project_root_def isabs_str_path wf_parent wf_parse_path
        p_root_parent p_root_parse)
  have f: "sys_path (final (run_app env st)) = project_root_str (dunder_file env) # sys_path st"
    by (simp add: final_run_app sys_path_import_main sys_path_registered)
  from p t a f show ?thesis
    by (simp add: p_root_parent entry_dir_project_root)
qed

theorem project_root_is_parent_witness:
  "p_tail (parse_path ''proj/run_app.py'') \<noteq> [] \<and>
   parse_path (project_root_str ''proj/run_app.py'') = \<lparr>p_root = [], p_tail = [''proj'']\<rparr> \<and>
   entry_dir (parse_path ''/tmp'') (project_root_str ''proj/run_app.py'') =
     \<lparr>p_root = ''/'', p_tail = [''tmp'', ''proj'']\<rparr> \<and>
   isabs (project_root_str ''/proj/run_app.py'') \<and>
   \<not> isabs (project_root_str ''proj/run_app.py'')"
proof -
  note t = project_root_is_parent [of "''proj/run_app.py''" "parse_path ''/tmp''"]
  have h: "p_tail (parse_path ''proj/run_app.py'') \<noteq> []"
    by (simp add: parse_path_def splitroot_def)
  from t have "parse_path (project_root_str ''proj/run_app.py'') = parent (parse_path ''proj/run_app.py'')"
    by blast
  then have a: "parse_path (project_root_str ''proj/run_app.py'') = \<lparr>p_root = [], p_tail = [''proj'']\<rparr>"
    by (simp add: parse_path_def splitroot_def parent_def)
  from t h have "entry_dir (parse_path ''/tmp'') (project_root_str ''proj/run_app.py'') =
      parent (join_path (parse_path ''/tmp'') (parse_path ''proj/run_app.py''))"
    by blast
  then have b: "entry_dir (parse_path ''/tmp'') (project_root_str ''proj/run_app.py'') =
      \<lparr>p_root = ''/'', p_tail = [''tmp'', ''proj'']\<rparr>"
    by (simp add: parse_path_def splitroot_def parent_def join_path_def)
  from project_root_is_parent [of "''/proj/run_app.py''"]
  have c: "isabs (project_root_str ''/proj/run_app.py'')"
    by (simp add: isabs_def)
  from t have "isabs (project_root_str ''proj/run_app.py'') = isabs ''proj/run_app.py''"
    by blast
  then have d: "\<not> isabs (project_root_str ''proj/run_app.py'')"
    by (simp add: isabs_def)
  from h a b c d show ?thesis by blast
qed

text \<open>
  C3 as stated fails: loaded as a library under the name \<^verbatim>\<open>run_app\<close>, the launcher still
  executes its import statement, and \<^verbatim>\<open>backend.main\<close> is loaded.
\<close>

theorem library_load_imports_backend:
  "dunder_name (launch ''/tmp'' ''/proj/run_app.py'' ''run_app'' good_backend) \<noteq> ''__main__'' \<and>
   import_attempts (trace (run_app (launch ''/tmp'' ''/proj/run_app.py'' ''run_app'' good_backend) start_state)) = 1 \<and>
   trace (run_app (launch ''/tmp'' ''/proj/run_app.py'' ''run_app'' good_backend) start_state) =
     [PathRegistered ''/proj'', ImportAttempted [''/proj'', ''/usr/lib/python3'']] \<and>
   sys_modules (final (run_app (launch ''/tmp'' ''/proj/run_app.py'' ''run_app'' good_backend) start_state)) =
     [''sys'', ''backend'', ''backend.main'']"
  by (simp add: run_eval path_eval Let_def)

text \<open>
  C3, amended. Every load of the launcher executes the import of \<^verbatim>\<open>backend.main\<close> once,
  top-level program or not; when the launcher is not the top-level program, \<^verbatim>\<open>main\<close> is not
  called.
\<close>

theorem import_unguarded_call_guarded:
  "import_attempts (trace (run_app env st)) = 1 \<and>
   (dunder_name env \<noteq> ''__main__'' \<longrightarrow> main_calls (trace (run_app env st)) = 0)"
  by (simp add: import_attempts_run trace_library main_calls_def)

theorem import_unguarded_call_guarded_witness:
  "dunder_name (launch ''/tmp'' ''/proj/run_app.py'' ''run_app'' good_backend) \<noteq> ''__main__'' \<and>
   import_attempts (trace (run_app (launch ''/tmp'' ''/proj/run_app.py'' ''run_app'' good_backend) start_state)) = 1 \<and>
   main_calls (trace (run_app (launch ''/tmp'' ''/proj/run_app.py'' ''run_app'' good_backend) start_state)) = 0"
  using import_unguarded_call_guarded
    [of "launch ''/tmp'' ''/proj/run_app.py'' ''run_app'' good_backend" start_state]
  by (simp add: launch_def)

text \<open>
  C4. Loading the launcher as a library never calls the entry point: no call of \<^verbatim>\<open>main\<close> is
  in the trace, and the load ends normally or with the exception of the import.
\<close>

theorem library_load_never_calls_main:
  assumes "dunder_name env \<noteq> ''__main__''"
  shows "MainCalled \<notin> set (trace (run_app env st)) \<and>
         (status (run_app env st) = Finished \<or>
          (\<exists>e. snd (import_main env (registered env st)) = Inl e \<and>
                status (run_app env st) = Unhandled e))"
proof (cases "snd (import_main env (registered env st))")
  case (Inl e)
  with assms show ?thesis by (simp add: trace_library run_app_import_raises)
next
  case (Inr m)
  with assms show ?thesis by (simp add: trace_library run_app_library)
qed

theorem library_load_never_calls_main_witness:
  "dunder_name (launch ''/home'' ''/proj/run_app.py'' ''run_app'' good_backend) \<noteq> ''__main__'' \<and>
   MainCalled \<notin> set (trace (run_app (launch ''/home'' ''/proj/run_app.py'' ''run_app'' good_backend) start_state))"
  using library_load_never_calls_main
    [of "launch ''/home'' ''/proj/run_app.py'' ''run_app'' good_backend" start_state]
  by (simp add: launch_def)




text \<open>
  C6 as stated fails: started as the top-level program beside a package \<^verbatim>\<open>backend\<close> that has
  no module \<^verbatim>\<open>main\<close>, the launcher ends with the exception of the import and the entry point
  is not invoked at all.
\<close>

theorem top_level_import_failure_no_call:
  "dunder_name (launch ''/tmp'' ''/proj/run_app.py'' ''__main__'' backend_without_main) = ''__main__'' \<and>
   main_calls (trace (run_app (launch ''/tmp'' ''/proj/run_app.py'' ''__main__'' backend_without_main) start_state)) = 0 \<and>
   status (run_app (launch ''/tmp'' ''/proj/run_app.py'' ''__main__'' backend_without_main) start_state) =
     Unhandled (ModuleNotFound ''backend.main'')"
  by (simp add: run_eval path_eval)

text \<open>
  C6, amended. When the launcher runs as the top-level program, the entry point is invoked
  at most once; it is invoked exactly once when the import succeeds and not at all when the
  import raises. In every case the registration comes first and the import runs on the
  search path that already holds the root; the call, if any, comes after the import.
\<close>

theorem top_level_order_and_count:
  assumes "dunder_name env = ''__main__''"
  shows "main_calls (trace (run_app env st)) \<le> 1 \<and>
     (\<forall>m. snd (import_main env (registered env st)) = Inr m \<longrightarrow>
        trace (run_app env st) =
          [PathRegistered (project_root_str (dunder_file env)),
           ImportAttempted (project_root_str (dunder_file env) # sys_path st),
           MainCalled] \<and>
        main_calls (trace (run_app env st)) = 1) \<and>
     (\<forall>e. snd (import_main env (registered env st)) = Inl e \<longrightarrow>
        trace (run_app env st) =
          [PathRegistered (project_root_str (dunder_file env)),
           ImportAttempted (project_root_str (dunder_file env) # sys_path st)] \<and>
        main_calls (trace (run_app env st)) = 0)"
proof (cases "snd (import_main env (registered env st))")
  case (Inl e)
  then show ?thesis by (simp add: run_app_import_raises main_calls_def)
next
  case (Inr m)
  with assms show ?thesis by (simp add: run_app_top_level main_calls_def)
qed

theorem top_level_order_and_count_witness:
  "dunder_name (launch ''/tmp'' ''/proj/run_app.py'' ''__main__'' good_backend) = ''__main__'' \<and>
   snd (import_main (launch ''/tmp'' ''/proj/run_app.py'' ''__main__'' good_backend)
          (registered (launch ''/tmp'' ''/proj/run_app.py'' ''__main__'' good_backend) start_state)) = Inr Returns \<and>
   trace (run_app (launch ''/tmp'' ''/proj/run_app.py'' ''__main__'' good_backend) start_state) =
     [PathRegistered ''/proj'', ImportAttempted [''/proj'', ''/usr/lib/python3''], MainCalled] \<and>
   main_calls (trace (run_app (launch ''/tmp'' ''/proj/run_app.py'' ''__main__'' good_backend) start_state)) = 1"
proof -
  let ?env = "launch ''/tmp'' ''/proj/run_app.py'' ''__main__'' good_backend"
  have n: "dunder_name ?env = ''__main__''" by (simp add: launch_def)
  have i: "snd (import_main ?env (registered ?env start_state)) = Inr Returns"
    by (simp add: run_eval path_eval)
  have r: "project_root_str (dunder_file ?env) = ''/proj''"
    by (simp add: launch_def path_eval)
  have s: "sys_path start_state = [''/usr/lib/python3'']" by (simp add: start_state_def)
  from top_level_order_and_count [OF n, of start_state] i r s n show ?thesis
    by (simp add: main_calls_def)
qed

text \<open>
  C7. Every exception of the import and every exception of the call \<^verbatim>\<open>main()\<close> ends the run
  as it is: the run's ending carries the same exception, the import was attempted once and
  \<^verbatim>\<open>main\<close> was called at most once (not at all when the import raised). So it is when the
  body of the module \<^verbatim>\<open>backend/main.py\<close> that the finder finds raises.
\<close>

theorem errors_propagate_unhandled:
  "(snd (import_main env (registered env st)) = Inl e \<longrightarrow>
      status (run_app env st) = Unhandled e \<and>
      import_attempts (trace (run_app env st)) = 1 \<and>
      main_calls (trace (run_app env st)) = 0) \<and>
   (''backend'' \<notin> set (sys_modules st) \<and> ''backend.main'' \<notin> set (sys_modules st) \<and>
    backend_spec (fs env) (cwd env) (sys_path (registered env st)) =
      SpecRegular (BackendPackage None (Regular (MainModule (ExecRaises e)))) \<longrightarrow>
      status (run_app env st) = Unhandled e) \<and>
   (dunder_name env = ''__main__'' \<and>
    snd (import_main env (registered env st)) = Inr (Raises e) \<longrightarrow>
      status (run_app env st) = Unhandled e \<and>
      import_attempts (trace (run_app env st)) = 1 \<and>
      main_calls (trace (run_app env st)) = 1)"
proof -
  have "''backend'' \<notin> set (sys_modules st) \<Longrightarrow> ''backend.main'' \<notin> set (sys_modules st) \<Longrightarrow>
      backend_spec (fs env) (cwd env) (sys_path (registered env st)) =
        SpecRegular (BackendPackage None (Regular (MainModule (ExecRaises e)))) \<Longrightarrow>
      snd (import_main env (registered env st)) = Inl e"
    by (simp add: snd_import_main_fresh sys_modules_registered find_backend_def load_backend_def
        find_main_def exec_main_def)
  then show ?thesis
    by (auto simp: run_app_import_raises run_app_top_level import_attempts_def main_calls_def)
qed

theorem errors_propagate_unhandled_witness:
  "status (run_app (launch ''/tmp'' ''/proj/run_app.py'' ''__main__''
             (backend_main (ExecRaises (Exn (OtherError ''SyntaxError'') ''invalid syntax''))))
           start_state) =
     Unhandled (Exn (OtherError ''SyntaxError'') ''invalid syntax'') \<and>
   status (run_app (launch ''/tmp'' ''/proj/run_app.py'' ''__main__''
             (backend_main (Defines (Some (Raises (Exn (OtherError ''RuntimeError'') ''no display''))))))
           start_state) =
     Unhandled (Exn (OtherError ''RuntimeError'') ''no display'')"
proof -
  let ?e1 = "Exn (OtherError ''SyntaxError'') ''invalid syntax''"
  let ?e2 = "Exn (OtherError ''RuntimeError'') ''no display''"
  let ?env1 = "launch ''/tmp'' ''/proj/run_app.py'' ''__main__'' (backend_main (ExecRaises ?e1))"
  let ?env2 = "launch ''/tmp'' ''/proj/run_app.py'' ''__main__'' (backend_main (Defines (Some (Raises ?e2))))"
  have i1: "snd (import_main ?env1 (registered ?env1 start_state)) = Inl ?e1"
    by (simp add: run_eval path_eval)
  have i2: "snd (import_main ?env2 (registered ?env2 start_state)) = Inr (Raises ?e2)"
    by (simp add: run_eval path_eval)
  have n: "dunder_name ?env2 = ''__main__''" by (simp add: launch_def)
  from errors_propagate_unhandled [of ?env1 start_state ?e1] i1
  have a: "status (run_app ?env1 start_state) = Unhandled ?e1" by blast
  from errors_propagate_unhandled [of ?env2 start_state ?e2] i2 n
  have b: "status (run_app ?env2 start_state) = Unhandled ?e2" by blast
  from a b show ?thesis by simp
qed




text \<open>
  C9. The registration is not idempotent. Applied \<open>n \<ge> 2\<close> times with one root, it leaves
  \<open>n\<close> copies of the root at the front of the search path (so \<open>n\<close> more occurrences than
  before), which is not the state after one application; the lookup of \<^verbatim>\<open>backend\<close> and the
  result of the import are the same as after one application.
\<close>

theorem registration_not_idempotent:
  assumes "2 \<le> n"
  shows "sys_path ((register_search_path r ^^ n) st) = replicate n r @ sys_path st \<and>
         count_list (sys_path ((register_search_path r ^^ n) st)) r = n + count_list (sys_path st) r \<and>
         (register_search_path r ^^ n) st \<noteq> register_search_path r st \<and>
         find_backend fsys w (sys_path ((register_search_path r ^^ n) st)) =
           find_backend fsys w (sys_path (register_search_path r st)) \<and>
         snd (import_main env ((register_search_path r ^^ n) st)) =
           snd (import_main env (register_search_path r st))"
proof -
  from assms obtain k where n: "n = Suc k" by (cases n) auto
  have f: "find_backend g w (sys_path ((register_search_path r ^^ n) st)) =
           find_backend g w (sys_path (register_search_path r st))" for g w
    unfolding register_funpow sys_path_register n by (rule find_backend_replicate)
  have "length (sys_path ((register_search_path r ^^ n) st)) \<noteq>
        length (sys_path (register_search_path r st))"
    using assms by (simp add: register_funpow sys_path_register)
  then have d: "(register_search_path r ^^ n) st \<noteq> register_search_path r st"
    by auto
  have i: "snd (import_main env ((register_search_path r ^^ n) st)) =
           snd (import_main env (register_search_path r st))"
    by (rule snd_import_main_cong) (simp_all add: sys_modules_funpow sys_modules_register f)
  have c: "count_list (sys_path ((register_search_path r ^^ n) st)) r = n + count_list (sys_path st) r"
    unfolding register_funpow by (rule count_list_replicate_append)
  from f [of fsys w] d i c show ?thesis
    by (simp add: register_funpow)
qed

theorem registration_not_idempotent_witness:
  "(2::nat) \<le> 3 \<and>
   sys_path ((register_search_path ''/proj'' ^^ 3) start_state) =
     [''/proj'', ''/proj'', ''/proj'', ''/usr/lib/python3''] \<and>
   count_list (sys_path ((register_search_path ''/proj'' ^^ 3) start_state)) ''/proj'' = 3 \<and>
   find_backend fs_shadowed (parse_path ''/tmp'') (sys_path ((register_search_path ''/proj'' ^^ 3) start_state)) =
     find_backend fs_shadowed (parse_path ''/tmp'') (sys_path (register_search_path ''/proj'' start_state))"
proof -
  have h: "(2::nat) \<le> 3" by simp
  have r: "replicate 3 ''/proj'' = [''/proj'', ''/proj'', ''/proj'']"
    by (simp add: numeral_3_eq_3)
  note t = registration_not_idempotent [OF h, of "''/proj''" start_state fs_shadowed "parse_path ''/tmp''"]
  from t have "sys_path ((register_search_path ''/proj'' ^^ 3) start_state) =
      replicate 3 ''/proj'' @ sys_path start_state"
    by (rule conjunct1)
  then have a: "sys_path ((register_search_path ''/proj'' ^^ 3) start_state) =
      [''/proj'', ''/proj'', ''/proj'', ''/usr/lib/python3'']"
    by (simp add: r start_state_def)
  from t have "count_list (sys_path ((register_search_path ''/proj'' ^^ 3) start_state)) ''/proj'' =
      3 + count_list (sys_path start_state) ''/proj''"
    by blast
  then have b: "count_list (sys_path ((register_search_path ''/proj'' ^^ 3) start_state)) ''/proj'' = 3"
    by (simp add: start_state_def)
  from t have c: "find_backend fs_shadowed (parse_path ''/tmp'')
        (sys_path ((register_search_path ''/proj'' ^^ 3) start_state)) =
      find_backend fs_shadowed (parse_path ''/tmp'')
        (sys_path (register_search_path ''/proj'' start_state))"
    by blast
  from h a b c show ?thesis by blast
qed

text \<open>
  C10. The registration only prepends: the new search path is the root followed by the old
  search path, so every old entry is kept, in order, one index further; the loaded modules
  and every other part of the process state are as before.
\<close>

theorem registration_is_prepend:
  "register_search_path r st = st\<lparr>sys_path := r # sys_path st\<rparr> \<and>
   length (sys_path (register_search_path r st)) = Suc (length (sys_path st)) \<and>
   tl (sys_path (register_search_path r st)) = sys_path st \<and>
   (\<forall>i < length (sys_path st). sys_path (register_search_path r st) ! (i + 1) = sys_path st ! i) \<and>
   sys_modules (register_search_path r st) = sys_modules st \<and>
   process.more (register_search_path r st) = process.more st"
  by (simp add: register_search_path_def list_insert_front)

theorem registration_is_prepend_witness:
  "register_search_path ''/proj'' \<lparr>sys_path = [''/a'', ''/b''], sys_modules = [''sys'']\<rparr> =
     \<lparr>sys_path = [''/proj'', ''/a'', ''/b''], sys_modules = [''sys'']\<rparr> \<and>
   sys_path (register_search_path ''/proj'' \<lparr>sys_path = [''/a'', ''/b''], sys_modules = [''sys'']\<rparr>) ! (1 + 1) = ''/b''"
  using registration_is_prepend [of "''/proj''" "\<lparr>sys_path = [''/a'', ''/b''], sys_modules = [''sys'']\<rparr>"]
  by simp

end
